theory Spec2Isabelle
  imports Main "HOL-Library.Sublist"
begin

section \<open>Text primitives of the wizard\<close>

text \<open>
  The wizard (\<^verbatim>\<open>git_setup_wizard.py\<close>) works on Python text, a sequence of Unicode code
  points. Text is modelled as \<^typ>\<open>string\<close>, each \<^typ>\<open>char\<close> standing for the code point
  of the same number, so the model covers the texts whose code points are all below 256
  (ASCII and the Latin-1 supplement); \<open>CHR 0xA0\<close> is U+00A0. On these code points the
  functions below are Python's \<^verbatim>\<open>str.lower\<close>, \<^verbatim>\<open>str.isspace\<close>, \<^verbatim>\<open>str.strip\<close> and the
  character class \<^verbatim>\<open>[A-F0-9]\<close>.
\<close>

text \<open>
  \<^verbatim>\<open>str.lower\<close> on one code point: the capitals \<^verbatim>\<open>A\<close> to \<^verbatim>\<open>Z\<close> (65 to 90) and the Latin-1
  capitals U+00C0 to U+00DE without the multiplication sign U+00D7 move up by 32; every
  other code point below 256 stays.
\<close>

definition lower_char :: "char \<Rightarrow> char" where
  "lower_char c =
     (let n = (of_char c :: nat) in
      if (65 \<le> n \<and> n \<le> 90) \<or> (192 \<le> n \<and> n \<le> 222 \<and> n \<noteq> 215)
      then char_of (n + 32)
      else c)"

definition lower :: "string \<Rightarrow> string" where
  "lower s = map lower_char s"

text \<open>
  The code points below 256 that \<^verbatim>\<open>str.isspace\<close> accepts and \<^verbatim>\<open>str.strip\<close> removes: TAB, LF,
  VT, FF, CR, the separators FS, GS, RS, US, SPACE, the next-line control U+0085 and the
  no-break space U+00A0.
\<close>

definition isspace :: "char \<Rightarrow> bool" where
  "isspace c \<longleftrightarrow>
     c \<in> set [CHR 0x09, CHR 0x0A, CHR 0x0B, CHR 0x0C, CHR 0x0D,
              CHR 0x1C, CHR 0x1D, CHR 0x1E, CHR 0x1F, CHR 0x20,
              CHR 0x85, CHR 0xA0]"

definition lstrip :: "string \<Rightarrow> string" where
  "lstrip s = dropWhile isspace s"

definition rstrip :: "string \<Rightarrow> string" where
  "rstrip s = rev (dropWhile isspace (rev s))"

definition strip :: "string \<Rightarrow> string" where
  "strip s = rstrip (lstrip s)"

text \<open>Python's \<^verbatim>\<open>marker in content\<close> on strings: \<open>marker\<close> occurs as a contiguous substring.\<close>

definition str_in :: "string \<Rightarrow> string \<Rightarrow> bool" where
  "str_in marker content \<longleftrightarrow> sublist marker content"

definition startswith :: "string \<Rightarrow> string \<Rightarrow> bool" where
  "startswith s p \<longleftrightarrow> prefix p s"

section \<open>Managed files\<close>

text \<open>
  A managed file is \<open>None\<close> when the path does not exist (\<^verbatim>\<open>Path.exists()\<close> is false) and
  \<open>Some content\<close> otherwise, \<open>content\<close> being what \<^verbatim>\<open>read_text()\<close> returns. Each step of the
  wizard decides on one filesystem operation; \<open>apply_op\<close> carries it out. Permission bits
  (\<^verbatim>\<open>chmod(0o600)\<close> on a fresh SSH config) and failures of the operating system while
  reading or writing are not part of this model.
\<close>

type_synonym managed_file = "string option"

datatype fs_op =
    NoWrite
  | AppendText string
  | WriteText string

fun apply_op :: "fs_op \<Rightarrow> managed_file \<Rightarrow> managed_file" where
  "apply_op NoWrite f = f"
| "apply_op (AppendText b) f = Some ((case f of None \<Rightarrow> [] | Some c \<Rightarrow> c) @ b)"
| "apply_op (WriteText b) f = Some b"

subsection \<open>\<^verbatim>\<open>~/.ssh/config\<close> (\<^verbatim>\<open>setup_ssh\<close>, lines 374-394)\<close>

definition github_block :: string where
  "github_block =
     ''\<newline>Host github.com\<newline>'' @
     ''  AddKeysToAgent yes\<newline>'' @
     ''  UseKeychain yes\<newline>'' @
     ''  IdentityFile ~/.ssh/id_ed25519\<newline>''"

definition ssh_config_op :: "managed_file \<Rightarrow> fs_op" where
  "ssh_config_op f =
     (case f of
        Some content \<Rightarrow>
          if str_in ''github.com'' (lower content) then NoWrite
          else AppendText github_block
      | None \<Rightarrow> WriteText (lstrip github_block))"

definition setup_ssh_config :: "managed_file \<Rightarrow> managed_file" where
  "setup_ssh_config f = apply_op (ssh_config_op f) f"

subsection \<open>\<^verbatim>\<open>gpg-agent.conf\<close> (\<^verbatim>\<open>setup_gpg\<close>, lines 441-452)\<close>

text \<open>\<open>pinentry_path\<close> is the text of the module-level \<^verbatim>\<open>PINENTRY_PATH\<close>.\<close>

definition pinentry_line :: "string \<Rightarrow> string" where
  "pinentry_line pinentry_path = ''pinentry-program '' @ pinentry_path"

definition gpg_agent_conf_op :: "string \<Rightarrow> managed_file \<Rightarrow> fs_op" where
  "gpg_agent_conf_op pinentry_path f =
     (case f of
        Some content \<Rightarrow>
          if \<not> str_in ''pinentry-program'' content
          then AppendText (''\<newline>'' @ pinentry_line pinentry_path @ ''\<newline>'')
          else NoWrite
      | None \<Rightarrow> WriteText (pinentry_line pinentry_path @ ''\<newline>''))"

definition setup_gpg_agent_conf :: "string \<Rightarrow> managed_file \<Rightarrow> managed_file" where
  "setup_gpg_agent_conf pinentry_path f = apply_op (gpg_agent_conf_op pinentry_path f) f"

subsection \<open>The shell rc file (\<^verbatim>\<open>setup_gpg\<close>, lines 549-560)\<close>

definition shell_rc_op :: "managed_file \<Rightarrow> fs_op" where
  "shell_rc_op f =
     (case f of
        Some content \<Rightarrow>
          if \<not> str_in ''GPG_TTY'' content
          then AppendText ''\<newline># GPG commit signing\<newline>export GPG_TTY=$(tty)\<newline>''
          else NoWrite
      | None \<Rightarrow> WriteText ''# GPG commit signing\<newline>export GPG_TTY=$(tty)\<newline>'')"

definition setup_shell_rc :: "managed_file \<Rightarrow> managed_file" where
  "setup_shell_rc f = apply_op (shell_rc_op f) f"

section \<open>Key identifier extraction (\<^verbatim>\<open>setup_gpg\<close>, lines 458-469 and 501-509)\<close>

text \<open>The character class \<^verbatim>\<open>[A-F0-9]\<close>.\<close>

definition hexchar :: "char \<Rightarrow> bool" where
  "hexchar c \<longleftrightarrow> c \<in> set ''ABCDEF0123456789''"

text \<open>
  \<^verbatim>\<open>re.search(r'/([A-F0-9]{8,})', line)\<close> followed by \<^verbatim>\<open>m.group(1)\<close>: the leftmost slash that
  is followed by at least eight characters of the class; the quantifier is greedy and
  nothing follows it in the pattern, so the group is the whole run of such characters.
\<close>

fun re_search :: "string \<Rightarrow> string option" where
  "re_search [] = None"
| "re_search (c # cs) =
     (if c = CHR ''/'' \<and> 8 \<le> length (takeWhile hexchar cs)
      then Some (takeWhile hexchar cs)
      else re_search cs)"

text \<open>\<^verbatim>\<open>text.split("\n")\<close>: always at least one piece.\<close>

fun split_newline :: "string \<Rightarrow> string list" where
  "split_newline [] = [[]]"
| "split_newline (c # cs) =
     (if c = CHR 0x0A then [] # split_newline cs
      else (case split_newline cs of
              l # ls \<Rightarrow> (c # l) # ls
            | [] \<Rightarrow> [[c]]))"

text \<open>
  The \<^verbatim>\<open>for line in ...\<close> loop of both extraction sites: the first line that, once
  stripped, starts with \<^verbatim>\<open>sec\<close> and matches the pattern ends the loop.
\<close>

fun scan_sec_lines :: "string list \<Rightarrow> string option" where
  "scan_sec_lines [] = None"
| "scan_sec_lines (l # ls) =
     (let line = strip l in
      if startswith line ''sec'' then
        (case re_search line of
           Some key_id \<Rightarrow> Some key_id
         | None \<Rightarrow> scan_sec_lines ls)
      else scan_sec_lines ls)"

definition parse_key_id :: "string \<Rightarrow> string option" where
  "parse_key_id output = scan_sec_lines (split_newline output)"

text \<open>Lines 458-469: the listing of an existing key; \<^verbatim>\<open>gpg_key_id\<close> starts as \<^verbatim>\<open>None\<close>.\<close>

definition existing_key_id :: "string \<Rightarrow> string option" where
  "existing_key_id existing =
     (if existing \<noteq> [] \<and> str_in ''sec'' existing then parse_key_id existing else None)"

text \<open>Lines 501-509: the listing after key generation.\<close>

definition fresh_key_id :: "string \<Rightarrow> string option" where
  "fresh_key_id fresh = (if fresh \<noteq> [] then parse_key_id fresh else None)"

section \<open>Shell helpers (lines 87-105)\<close>

text \<open>
  Python exceptions that matter to the control flow of the wizard. \<open>Exception msg\<close> stands
  for any instance of \<^verbatim>\<open>Exception\<close> (with its text); \<^verbatim>\<open>SystemExit\<close> and
  \<^verbatim>\<open>KeyboardInterrupt\<close> are not instances of \<^verbatim>\<open>Exception\<close>.
\<close>

datatype exn =
    SystemExit int
  | KeyboardInterrupt
  | Exception string

record completed_process =
  returncode :: int
  stdout :: string

text \<open>
  \<^verbatim>\<open>subprocess.run(cmd, shell=True, capture_output=True, text=True)\<close> belongs to the
  operating system: it is a parameter \<open>run\<close>, which either raises or returns a completed
  process.
\<close>

definition sh :: "(string \<Rightarrow> exn + completed_process) \<Rightarrow> string \<Rightarrow> exn + string" where
  "sh run cmd =
     (case run cmd of
        Inr r \<Rightarrow> Inr (strip (stdout r))
      | Inl (Exception e) \<Rightarrow> Inr []
      | Inl other \<Rightarrow> Inl other)"

definition sh_ok :: "(string \<Rightarrow> exn + completed_process) \<Rightarrow> string \<Rightarrow> exn + bool" where
  "sh_ok run cmd =
     (case run cmd of
        Inr r \<Rightarrow> Inr (returncode r = 0)
      | Inl raised \<Rightarrow> Inl raised)"

definition cmd_exists :: "(string \<Rightarrow> exn + completed_process) \<Rightarrow> string \<Rightarrow> exn + bool" where
  "cmd_exists run name = sh_ok run (''which '' @ name)"

section \<open>The entry point (lines 184-222 and 697-737)\<close>

text \<open>
  What the wizard hands to \<^verbatim>\<open>console.print\<close> on the paths modelled here. The markup of a
  message is fixed by the source up to the run-time text it embeds, which is the
  argument of the constructor. \<open>WelcomeScreen\<close> is the screen of lines 185-200,
  \<open>PhaseHeader\<close> the panel of \<^verbatim>\<open>phase\<close>; the others are one call each (lines 203, 215,
  217, 221, 732, 735 and 736).
\<close>

datatype message =
    WelcomeScreen
  | NoWorries
  | PhaseHeader nat
  | TargetsMacOS string
  | MacOSDetected
  | GitNotFound
  | Cancelled
  | SomethingBroke string
  | RerunHint

text \<open>
  \<^verbatim>\<open>welcome\<close> of the source is \<open>welcome_phase\<close> here (the plain name is taken by Isabelle).
  A \<open>wizard_env\<close> holds what the user, the machine and the terminal library answer during
  one run: \<open>console_print\<close> tells whether printing a message returns or raises (the
  library raises \<^verbatim>\<open>MarkupError\<close> on markup it cannot parse). The part of \<^verbatim>\<open>preflight\<close>
  after the Git check (Homebrew, GnuPG, pinentry) and the phases after \<^verbatim>\<open>preflight\<close> are
  represented by their outcome: the value they return or the exception they raise.
\<close>

record wizard_env =
  subprocess_run :: "string \<Rightarrow> exn + completed_process"
  console_print :: "message \<Rightarrow> exn + unit"
  confirm_ready :: "exn + bool"
  platform_system :: string
  preflight_rest :: "exn + bool"
  later_phases :: "bool \<Rightarrow> exn + unit"

text \<open>Sequencing: an exception raised by the first step skips the rest.\<close>

definition and_then :: "exn + 'a \<Rightarrow> ('a \<Rightarrow> exn + 'b) \<Rightarrow> exn + 'b" where
  "and_then step rest = (case step of Inl raised \<Rightarrow> Inl raised | Inr v \<Rightarrow> rest v)"

definition welcome_phase :: "wizard_env \<Rightarrow> exn + unit" where
  "welcome_phase env =
     and_then (console_print env WelcomeScreen) (\<lambda>u.
     and_then (confirm_ready env) (\<lambda>ready.
       if \<not> ready
       then and_then (console_print env NoWorries) (\<lambda>u. Inl (SystemExit 0))
       else Inr ()))"

definition preflight :: "wizard_env \<Rightarrow> exn + bool" where
  "preflight env =
     and_then (console_print env (PhaseHeader 1)) (\<lambda>u.
       if platform_system env \<noteq> ''Darwin''
       then and_then (console_print env (TargetsMacOS (platform_system env)))
              (\<lambda>u. Inl (SystemExit 1))
       else
         and_then (console_print env MacOSDetected) (\<lambda>u.
         and_then (cmd_exists (subprocess_run env) ''git'') (\<lambda>found.
           if \<not> found
           then and_then (console_print env GitNotFound) (\<lambda>u. Inl (SystemExit 1))
           else preflight_rest env)))"

text \<open>The body of the \<^verbatim>\<open>try\<close> block of \<^verbatim>\<open>main\<close>.\<close>

definition main_body :: "wizard_env \<Rightarrow> exn + unit" where
  "main_body env =
     and_then (welcome_phase env) (\<lambda>u.
     and_then (preflight env) (\<lambda>gpg_available.
       later_phases env gpg_available))"

text \<open>
  \<^verbatim>\<open>main\<close>: the messages its two handlers got printed, and how it ends (\<open>Inr ()\<close> is a
  normal return). An exception raised inside a handler leaves \<^verbatim>\<open>main\<close> in place of the
  one being handled.
\<close>

definition main :: "wizard_env \<Rightarrow> message list \<times> (exn + unit)" where
  "main env =
     (case main_body env of
        Inl KeyboardInterrupt \<Rightarrow>
          (case console_print env Cancelled of
             Inl raised \<Rightarrow> ([], Inl raised)
           | Inr u \<Rightarrow> ([Cancelled], Inl (SystemExit 130)))
      | Inl (Exception e) \<Rightarrow>
          (case console_print env (SomethingBroke e) of
             Inl raised \<Rightarrow> ([], Inl raised)
           | Inr u \<Rightarrow>
               (case console_print env RerunHint of
                  Inl raised \<Rightarrow> ([SomethingBroke e], Inl raised)
                | Inr u \<Rightarrow> ([SomethingBroke e, RerunHint], Inl (Exception e))))
      | outcome \<Rightarrow> ([], outcome))"

section \<open>Facts about the text primitives\<close>

lemma str_in_append_block: "str_in m b \<Longrightarrow> str_in m (c @ b)"
  unfolding str_in_def sublist_def by (metis append.assoc)

lemma str_in_mid: "str_in m (a @ m @ b)"
  unfolding str_in_def by simp

lemma lower_append: "lower (a @ b) = lower a @ lower b"
  by (simp add: lower_def)

lemma lower_github: "lower ''github.com'' = ''github.com''"
  by code_simp

lemma str_in_lower: "str_in m c \<Longrightarrow> str_in (lower m) (lower c)"
  unfolding str_in_def lower_def by (rule map_mono_sublist)

lemma github_in_block: "str_in ''github.com'' (lower github_block)"
proof -
  have "github_block = ''\<newline>Host '' @ ''github.com'' @
      ''\<newline>  AddKeysToAgent yes\<newline>  UseKeychain yes\<newline>  IdentityFile ~/.ssh/id_ed25519\<newline>''"
    by (simp add: github_block_def)
  then have "str_in ''github.com'' github_block"
    using str_in_mid by metis
  from str_in_lower [OF this] show ?thesis
    by (simp only: lower_github)
qed

lemma lstrip_github_block:
  "lstrip github_block =
     ''Host '' @ ''github.com'' @
     ''\<newline>  AddKeysToAgent yes\<newline>  UseKeychain yes\<newline>  IdentityFile ~/.ssh/id_ed25519\<newline>''"
  by (simp add: lstrip_def github_block_def isspace_def)

lemma github_in_stripped_block: "str_in ''github.com'' (lower (lstrip github_block))"
proof -
  have "str_in ''github.com'' (lstrip github_block)"
    unfolding lstrip_github_block by (rule str_in_mid)
  from str_in_lower [OF this] show ?thesis
    by (simp only: lower_github)
qed

lemma pinentry_in_line: "str_in ''pinentry-program'' (pre @ pinentry_line p @ post)"
proof -
  have "pre @ pinentry_line p @ post = pre @ ''pinentry-program'' @ ('' '' @ p @ post)"
    by (simp add: pinentry_line_def)
  then show ?thesis
    using str_in_mid by metis
qed

lemma gpg_tty_in_block:
  "str_in ''GPG_TTY'' (pre @ ''# GPG commit signing\<newline>export GPG_TTY=$(tty)\<newline>'')"
proof -
  have "pre @ ''# GPG commit signing\<newline>export GPG_TTY=$(tty)\<newline>'' =
        (pre @ ''# GPG commit signing\<newline>export '') @ ''GPG_TTY'' @ ''=$(tty)\<newline>''"
    by simp
  then show ?thesis
    using str_in_mid by metis
qed

lemma ssh_config_present: "str_in ''github.com'' (lower c) \<Longrightarrow> setup_ssh_config (Some c) = Some c"
  by (simp add: setup_ssh_config_def ssh_config_op_def)

lemma ssh_config_absent:
  "\<not> str_in ''github.com'' (lower c) \<Longrightarrow> setup_ssh_config (Some c) = Some (c @ github_block)"
  by (simp add: setup_ssh_config_def ssh_config_op_def)

lemma ssh_config_missing: "setup_ssh_config None = Some (lstrip github_block)"
  by (simp add: setup_ssh_config_def ssh_config_op_def)

lemma ssh_config_result:
  "\<exists>c. setup_ssh_config f = Some c \<and> str_in ''github.com'' (lower c)"
proof (cases f)
  case None
  then show ?thesis
    using ssh_config_missing github_in_stripped_block by simp
next
  case (Some c)
  show ?thesis
  proof (cases "str_in ''github.com'' (lower c)")
    case True
    then show ?thesis
      using Some ssh_config_present by simp
  next
    case False
    have "str_in ''github.com'' (lower (c @ github_block))"
      unfolding lower_append by (rule str_in_append_block [OF github_in_block])
    then show ?thesis
      using Some False ssh_config_absent by simp
  qed
qed

lemma gpg_agent_conf_present:
  "str_in ''pinentry-program'' c \<Longrightarrow> setup_gpg_agent_conf p (Some c) = Some c"
  by (simp add: setup_gpg_agent_conf_def gpg_agent_conf_op_def)

lemma gpg_agent_conf_absent:
  "\<not> str_in ''pinentry-program'' c \<Longrightarrow>
   setup_gpg_agent_conf p (Some c) = Some (c @ ''\<newline>'' @ pinentry_line p @ ''\<newline>'')"
  by (simp add: setup_gpg_agent_conf_def gpg_agent_conf_op_def)

lemma gpg_agent_conf_missing:
  "setup_gpg_agent_conf p None = Some (pinentry_line p @ ''\<newline>'')"
  by (simp add: setup_gpg_agent_conf_def gpg_agent_conf_op_def)

lemma gpg_agent_conf_result:
  "\<exists>c. setup_gpg_agent_conf p f = Some c \<and> str_in ''pinentry-program'' c"
proof (cases f)
  case None
  have "str_in ''pinentry-program'' ([] @ pinentry_line p @ ''\<newline>'')"
    by (rule pinentry_in_line)
  then show ?thesis
    using None gpg_agent_conf_missing by simp
next
  case (Some c)
  show ?thesis
  proof (cases "str_in ''pinentry-program'' c")
    case True
    then show ?thesis
      using Some gpg_agent_conf_present by simp
  next
    case False
    have "str_in ''pinentry-program'' ((c @ ''\<newline>'') @ pinentry_line p @ ''\<newline>'')"
      by (rule pinentry_in_line)
    then show ?thesis
      using Some False gpg_agent_conf_absent by simp
  qed
qed

lemma shell_rc_present: "str_in ''GPG_TTY'' c \<Longrightarrow> setup_shell_rc (Some c) = Some c"
  by (simp add: setup_shell_rc_def shell_rc_op_def)

lemma shell_rc_absent:
  "\<not> str_in ''GPG_TTY'' c \<Longrightarrow>
   setup_shell_rc (Some c) =
     Some (c @ ''\<newline># GPG commit signing\<newline>export GPG_TTY=$(tty)\<newline>'')"
  by (simp add: setup_shell_rc_def shell_rc_op_def)

lemma shell_rc_missing:
  "setup_shell_rc None = Some ''# GPG commit signing\<newline>export GPG_TTY=$(tty)\<newline>''"
  by (simp add: setup_shell_rc_def shell_rc_op_def)

lemma shell_rc_result: "\<exists>c. setup_shell_rc f = Some c \<and> str_in ''GPG_TTY'' c"
proof (cases f)
  case None
  have "str_in ''GPG_TTY'' ([] @ ''# GPG commit signing\<newline>export GPG_TTY=$(tty)\<newline>'')"
    by (rule gpg_tty_in_block)
  then show ?thesis
    using None shell_rc_missing by simp
next
  case (Some c)
  show ?thesis
  proof (cases "str_in ''GPG_TTY'' c")
    case True
    then show ?thesis
      using Some shell_rc_present by simp
  next
    case False
    have "str_in ''GPG_TTY''
            ((c @ ''\<newline>'') @ ''# GPG commit signing\<newline>export GPG_TTY=$(tty)\<newline>'')"
      by (rule gpg_tty_in_block)
    then show ?thesis
      using Some False shell_rc_absent by simp
  qed
qed

section \<open>Facts about the extractor and the shell helpers\<close>

lemma hexchar_slash: "\<not> hexchar CHR ''/''"
  by (simp add: hexchar_def)

lemma takeWhile_hex_run:
  "\<forall>c\<in>set run. hexchar c \<Longrightarrow> rest = [] \<or> \<not> hexchar (hd rest) \<Longrightarrow>
   takeWhile hexchar (run @ rest) = run"
  by (cases rest) (auto simp: takeWhile_tail)

lemma re_search_after_prefix:
  "re_search pre = None \<Longrightarrow> re_search (pre @ CHR ''/'' # tail) = re_search (CHR ''/'' # tail)"
proof (induction pre)
  case Nil
  then show ?case by simp
next
  case (Cons c pre)
  have tw: "takeWhile hexchar (pre @ CHR ''/'' # tail) = takeWhile hexchar pre"
    by (simp add: takeWhile_tail hexchar_slash)
  from Cons.prems have "\<not> (c = CHR ''/'' \<and> 8 \<le> length (takeWhile hexchar pre))" and "re_search pre = None"
    by (auto split: if_splits)
  with Cons.IH tw show ?case
    by auto
qed

lemma re_search_no_slash: "CHR ''/'' \<notin> set s \<Longrightarrow> re_search s = None"
  by (induction s) auto

lemma re_search_hex: "re_search s = Some k \<Longrightarrow> (\<forall>c\<in>set k. hexchar c) \<and> 8 \<le> length k"
  by (induction s) (auto split: if_splits dest: set_takeWhileD)

lemma re_search_Some_shape:
  "re_search s = Some k \<Longrightarrow> \<exists>pre rest. s = pre @ CHR ''/'' # k @ rest \<and> (rest = [] \<or> \<not> hexchar (hd rest))"
proof (induction s)
  case Nil
  then show ?case by simp
next
  case (Cons c s)
  show ?case
  proof (cases "c = CHR ''/'' \<and> 8 \<le> length (takeWhile hexchar s)")
    case True
    with Cons.prems have k: "k = takeWhile hexchar s" by simp
    have "s = k @ dropWhile hexchar s" unfolding k by simp
    moreover have "dropWhile hexchar s = [] \<or> \<not> hexchar (hd (dropWhile hexchar s))"
      by (metis hd_dropWhile)
    ultimately have "c # s = [] @ CHR ''/'' # k @ dropWhile hexchar s \<and> (dropWhile hexchar s = [] \<or> \<not> hexchar (hd (dropWhile hexchar s)))"
      using True by simp
    then show ?thesis by blast
  next
    case False
    with Cons.prems have "re_search s = Some k" by auto
    from Cons.IH [OF this] obtain pre rest where "s = pre @ CHR ''/'' # k @ rest" "rest = [] \<or> \<not> hexchar (hd rest)"
      by blast
    then have "c # s = (c # pre) @ CHR ''/'' # k @ rest \<and> (rest = [] \<or> \<not> hexchar (hd rest))" by simp
    then show ?thesis by blast
  qed
qed

lemma re_search_skip_hex: "\<forall>c\<in>set run. hexchar c \<Longrightarrow> re_search (run @ t) = re_search t"
  by (induction run) (auto simp: hexchar_slash)

lemma scan_sec_lines_skip:
  "\<forall>b\<in>set before. startswith (strip b) ''sec'' \<longrightarrow> re_search (strip b) = None \<Longrightarrow>
   scan_sec_lines (before @ ls) = scan_sec_lines ls"
  by (induction before) (auto simp: Let_def)

lemma scan_sec_lines_hex:
  "scan_sec_lines ls = Some k \<Longrightarrow> (\<forall>c\<in>set k. hexchar c) \<and> 8 \<le> length k"
  by (induction ls) (auto simp: Let_def split: if_splits option.splits dest: re_search_hex)

lemma scan_sec_lines_none:
  "\<forall>l\<in>set ls. \<not> startswith (strip l) ''sec'' \<Longrightarrow> scan_sec_lines ls = None"
  by (induction ls) (auto simp: Let_def)

lemma split_newline_head: "\<exists>l ls. split_newline s = l # ls \<and> prefix l s"
  by (induction s) (auto split: list.splits)

lemma split_newline_sublist: "l \<in> set (split_newline s) \<Longrightarrow> sublist l s"
proof (induction s arbitrary: l)
  case Nil
  then show ?case by simp
next
  case (Cons c s)
  obtain l0 ls0 where sp: "split_newline s = l0 # ls0" and pre: "prefix l0 s"
    using split_newline_head by blast
  show ?case
  proof (cases "c = CHR 0x0A")
    case True
    with Cons.prems have "l = [] \<or> l \<in> set (split_newline s)" by simp
    then show ?thesis
      using Cons.IH by (auto simp: sublist_Cons_right)
  next
    case False
    with Cons.prems sp have "l = c # l0 \<or> l \<in> set ls0" by simp
    then show ?thesis
    proof
      assume "l = c # l0"
      with pre have "prefix l (c # s)" by simp
      then show ?thesis by (rule prefix_imp_sublist)
    next
      assume "l \<in> set ls0"
      with sp have "l \<in> set (split_newline s)" by simp
      from Cons.IH [OF this] show ?thesis by (simp add: sublist_Cons_right)
    qed
  qed
qed

lemma strip_sublist: "sublist (strip l) l"
proof -
  have "prefix (rstrip (lstrip l)) (lstrip l)"
  proof -
    have "rev (lstrip l) = takeWhile isspace (rev (lstrip l)) @ dropWhile isspace (rev (lstrip l))"
      by simp
    then have "lstrip l = rev (dropWhile isspace (rev (lstrip l))) @ rev (takeWhile isspace (rev (lstrip l)))"
      by (metis rev_append rev_rev_ident)
    then show ?thesis
      unfolding rstrip_def by (metis prefixI)
  qed
  moreover have "suffix (lstrip l) l"
    unfolding lstrip_def by (rule suffix_dropWhile)
  ultimately show ?thesis
    unfolding strip_def by (meson prefix_imp_sublist suffix_imp_sublist sublist_order.order_trans)
qed

lemma sec_line_in_output:
  assumes "l \<in> set (split_newline output)" and "startswith (strip l) ''sec''"
  shows "output \<noteq> [] \<and> str_in ''sec'' output"
proof -
  have "sublist ''sec'' (strip l)"
    using assms(2) unfolding startswith_def by (rule prefix_imp_sublist)
  then have "sublist ''sec'' l"
    using strip_sublist sublist_order.order_trans by blast
  then have "sublist ''sec'' output"
    using split_newline_sublist [OF assms(1)] sublist_order.order_trans by blast
  then show ?thesis
    unfolding str_in_def by auto
qed

lemma sh_absorbs_exception: "run cmd = Inl (Exception e) \<Longrightarrow> sh run cmd = Inr []"
  by (simp add: sh_def)

lemma sh_returns_text: "run cmd = Inr r \<Longrightarrow> sh run cmd = Inr (strip (stdout r))"
  by (simp add: sh_def)

lemma cmd_exists_completed:
  "run (''which '' @ name) = Inr r \<Longrightarrow> cmd_exists run name = Inr (returncode r = 0)"
  by (simp add: cmd_exists_def sh_ok_def)

text \<open>
  Stripping reaches the Latin-1 spaces: a listing line that starts with the no-break
  space U+00A0 and ends with the next-line control U+0085 is a \<^verbatim>\<open>sec\<close> line once stripped.
\<close>

lemma strip_latin1_spaces:
  "strip (CHR 0xA0 # ''sec rsa4096/ABCDEF1234567890 2024'' @ [CHR 0x85]) =
     ''sec rsa4096/ABCDEF1234567890 2024''"
  by code_simp

lemma key_id_on_no_break_space_line:
  "fresh_key_id (''uid x\<newline>'' @ CHR 0xA0 # ''sec rsa4096/ABCDEF1234567890 2024'') =
     Some ''ABCDEF1234567890'' \<and>
   existing_key_id (''uid x\<newline>'' @ CHR 0xA0 # ''sec rsa4096/ABCDEF1234567890 2024'') =
     Some ''ABCDEF1234567890''"
  by code_simp

section \<open>The managed-file steps\<close>

text \<open>
  C3. The spec's scenario says that an existing, empty \<^verbatim>\<open>gpg-agent.conf\<close> ends up holding
  exactly the pinentry line followed by a newline. The code appends the line with a
  newline in front of it, so the empty file ends up with one leading newline; the
  content without that newline is what a missing file gets.
\<close>

theorem gpg_agent_conf_on_empty_file:
  "setup_gpg_agent_conf X (Some []) = Some (''\<newline>pinentry-program '' @ X @ ''\<newline>'') \<and>
   setup_gpg_agent_conf X None = Some (''pinentry-program '' @ X @ ''\<newline>'')"
  by (simp add: setup_gpg_agent_conf_def gpg_agent_conf_op_def pinentry_line_def str_in_def)

theorem gpg_agent_conf_empty_file_counterexample:
  "setup_gpg_agent_conf ''X'' (Some []) \<noteq> Some ''pinentry-program X\<newline>''"
  by (simp add: setup_gpg_agent_conf_def gpg_agent_conf_op_def pinentry_line_def str_in_def)

text \<open>
  C1. Idempotence. Whatever the state of the target file (missing, or present with any
  content), running a step a second time with the same arguments leaves the content the
  first run produced: for the \<^verbatim>\<open>github.com\<close> block of \<^verbatim>\<open>~/.ssh/config\<close>, for the
  \<^verbatim>\<open>pinentry-program\<close> line of \<^verbatim>\<open>gpg-agent.conf\<close> (any pinentry path), and for the
  \<^verbatim>\<open>GPG_TTY\<close> export of the shell rc file.
\<close>

theorem ensure_twice_same_content:
  "setup_ssh_config (setup_ssh_config f) = setup_ssh_config f \<and>
   setup_gpg_agent_conf p (setup_gpg_agent_conf p f) = setup_gpg_agent_conf p f \<and>
   setup_shell_rc (setup_shell_rc f) = setup_shell_rc f"
proof (intro conjI)
  obtain c where "setup_ssh_config f = Some c" "str_in ''github.com'' (lower c)"
    using ssh_config_result by blast
  then show "setup_ssh_config (setup_ssh_config f) = setup_ssh_config f"
    by (simp add: ssh_config_present)
next
  obtain c where "setup_gpg_agent_conf p f = Some c" "str_in ''pinentry-program'' c"
    using gpg_agent_conf_result by blast
  then show "setup_gpg_agent_conf p (setup_gpg_agent_conf p f) = setup_gpg_agent_conf p f"
    by (simp add: gpg_agent_conf_present)
next
  obtain c where "setup_shell_rc f = Some c" "str_in ''GPG_TTY'' c"
    using shell_rc_result by blast
  then show "setup_shell_rc (setup_shell_rc f) = setup_shell_rc f"
    by (simp add: shell_rc_present)
qed

text \<open>
  C4. Appending preserves prior content. When the existing content \<open>C\<close> does not hold the
  marker (as the step looks for it), the new content is \<open>C\<close> followed by the step's block;
  and in every case the content of an existing file after the step starts with exactly
  \<open>C\<close>. For an SSH config holding a \<^verbatim>\<open>gitlab.com\<close> host block this gives the gitlab block
  followed by the github block.
\<close>

theorem append_keeps_prior_content:
  "(\<not> str_in ''github.com'' (lower Cs) \<longrightarrow>
      setup_ssh_config (Some Cs) = Some (Cs @ github_block)) \<and>
   (\<not> str_in ''pinentry-program'' Cg \<longrightarrow>
      setup_gpg_agent_conf p (Some Cg) = Some (Cg @ ''\<newline>'' @ pinentry_line p @ ''\<newline>'')) \<and>
   (\<not> str_in ''GPG_TTY'' Cr \<longrightarrow>
      setup_shell_rc (Some Cr) =
        Some (Cr @ ''\<newline># GPG commit signing\<newline>export GPG_TTY=$(tty)\<newline>'')) \<and>
   (\<exists>rest. setup_ssh_config (Some Cs) = Some (Cs @ rest)) \<and>
   (\<exists>rest. setup_gpg_agent_conf p (Some Cg) = Some (Cg @ rest)) \<and>
   (\<exists>rest. setup_shell_rc (Some Cr) = Some (Cr @ rest))"
proof (intro conjI impI)
  show "\<exists>rest. setup_ssh_config (Some Cs) = Some (Cs @ rest)"
    by (cases "str_in ''github.com'' (lower Cs)")
       (simp_all add: ssh_config_present ssh_config_absent)
  show "\<exists>rest. setup_gpg_agent_conf p (Some Cg) = Some (Cg @ rest)"
    by (cases "str_in ''pinentry-program'' Cg")
       (simp_all add: gpg_agent_conf_present gpg_agent_conf_absent)
  show "\<exists>rest. setup_shell_rc (Some Cr) = Some (Cr @ rest)"
    by (cases "str_in ''GPG_TTY'' Cr")
       (simp_all add: shell_rc_present shell_rc_absent)
qed (simp_all add: ssh_config_absent gpg_agent_conf_absent shell_rc_absent)

theorem append_keeps_prior_content_witness:
  "\<not> str_in ''github.com'' (lower ''Host gitlab.com\<newline>  HostName gitlab.com\<newline>'') \<and>
   setup_ssh_config (Some ''Host gitlab.com\<newline>  HostName gitlab.com\<newline>'') =
     Some (''Host gitlab.com\<newline>  HostName gitlab.com\<newline>'' @
           ''\<newline>Host github.com\<newline>  AddKeysToAgent yes\<newline>  UseKeychain yes\<newline>'' @
           ''  IdentityFile ~/.ssh/id_ed25519\<newline>'') \<and>
   \<not> str_in ''pinentry-program'' ''some-other-setting true\<newline>'' \<and>
   setup_gpg_agent_conf ''/opt/homebrew/bin/pinentry-mac'' (Some ''some-other-setting true\<newline>'') =
     Some (''some-other-setting true\<newline>'' @
           ''\<newline>pinentry-program /opt/homebrew/bin/pinentry-mac\<newline>'') \<and>
   \<not> str_in ''GPG_TTY'' ''export PATH=/usr/bin:$PATH\<newline>'' \<and>
   setup_shell_rc (Some ''export PATH=/usr/bin:$PATH\<newline>'') =
     Some (''export PATH=/usr/bin:$PATH\<newline>'' @
           ''\<newline># GPG commit signing\<newline>export GPG_TTY=$(tty)\<newline>'')"
proof -
  have a: "\<not> str_in ''github.com'' (lower ''Host gitlab.com\<newline>  HostName gitlab.com\<newline>'')"
    by code_simp
  have b: "\<not> str_in ''pinentry-program'' ''some-other-setting true\<newline>''"
    by code_simp
  have c: "\<not> str_in ''GPG_TTY'' ''export PATH=/usr/bin:$PATH\<newline>''"
    by code_simp
  show ?thesis
    using a b c
      append_keeps_prior_content [of "''Host gitlab.com\<newline>  HostName gitlab.com\<newline>''"
        "''some-other-setting true\<newline>''" "''/opt/homebrew/bin/pinentry-mac''"
        "''export PATH=/usr/bin:$PATH\<newline>''"]
    by (simp add: github_block_def pinentry_line_def)
qed

text \<open>
  C5. A marker that occurs anywhere in the existing content, as a plain substring, makes
  the step write nothing: the operation chosen is \<open>NoWrite\<close> and the content stays as it
  was, whatever block the marker sits in.
\<close>

theorem marker_present_no_write:
  "(str_in ''github.com'' Cs \<longrightarrow>
      ssh_config_op (Some Cs) = NoWrite \<and> setup_ssh_config (Some Cs) = Some Cs) \<and>
   (str_in ''pinentry-program'' Cg \<longrightarrow>
      gpg_agent_conf_op p (Some Cg) = NoWrite \<and> setup_gpg_agent_conf p (Some Cg) = Some Cg) \<and>
   (str_in ''GPG_TTY'' Cr \<longrightarrow>
      shell_rc_op (Some Cr) = NoWrite \<and> setup_shell_rc (Some Cr) = Some Cr)"
proof (intro conjI impI)
  assume "str_in ''github.com'' Cs"
  from str_in_lower [OF this] have l: "str_in ''github.com'' (lower Cs)"
    by (simp only: lower_github)
  then show "ssh_config_op (Some Cs) = NoWrite"
    by (simp add: ssh_config_op_def)
  from l show "setup_ssh_config (Some Cs) = Some Cs"
    by (rule ssh_config_present)
qed (simp_all add: gpg_agent_conf_op_def shell_rc_op_def gpg_agent_conf_present shell_rc_present)

theorem marker_present_no_write_witness:
  "str_in ''github.com'' ''Host github.com\<newline>  IdentityFile ~/.ssh/old_key\<newline>'' \<and>
   ssh_config_op (Some ''Host github.com\<newline>  IdentityFile ~/.ssh/old_key\<newline>'') = NoWrite \<and>
   setup_ssh_config (Some ''Host github.com\<newline>  IdentityFile ~/.ssh/old_key\<newline>'') =
     Some ''Host github.com\<newline>  IdentityFile ~/.ssh/old_key\<newline>'' \<and>
   str_in ''pinentry-program'' ''pinentry-program /usr/local/bin/pinentry-mac\<newline>'' \<and>
   setup_gpg_agent_conf ''/opt/homebrew/bin/pinentry-mac''
       (Some ''pinentry-program /usr/local/bin/pinentry-mac\<newline>'') =
     Some ''pinentry-program /usr/local/bin/pinentry-mac\<newline>'' \<and>
   str_in ''GPG_TTY'' ''export GPG_TTY=$(tty)\<newline>'' \<and>
   setup_shell_rc (Some ''export GPG_TTY=$(tty)\<newline>'') = Some ''export GPG_TTY=$(tty)\<newline>''"
proof -
  have a: "str_in ''github.com'' ''Host github.com\<newline>  IdentityFile ~/.ssh/old_key\<newline>''"
    by code_simp
  have b: "str_in ''pinentry-program'' ''pinentry-program /usr/local/bin/pinentry-mac\<newline>''"
    by code_simp
  have c: "str_in ''GPG_TTY'' ''export GPG_TTY=$(tty)\<newline>''"
    by code_simp
  show ?thesis
    using a b c
      marker_present_no_write [of "''Host github.com\<newline>  IdentityFile ~/.ssh/old_key\<newline>''"
        "''pinentry-program /usr/local/bin/pinentry-mac\<newline>''" "''/opt/homebrew/bin/pinentry-mac''"
        "''export GPG_TTY=$(tty)\<newline>''"]
    by simp
qed

text \<open>
  C10. The SSH config step looks for \<^verbatim>\<open>github.com\<close> in the lowercased content, so any
  casing of the marker counts as configured (a file holding only \<^verbatim>\<open>GITHUB.COM\<close> is left
  alone). The other two steps look for \<^verbatim>\<open>pinentry-program\<close> and \<^verbatim>\<open>GPG_TTY\<close> in the raw
  content, so a file holding only another casing of those markers gets the block
  appended.
\<close>

theorem marker_case_sensitivity:
  "(ssh_config_op (Some C) = NoWrite \<longleftrightarrow> str_in ''github.com'' (lower C)) \<and>
   (gpg_agent_conf_op p (Some C) = NoWrite \<longleftrightarrow> str_in ''pinentry-program'' C) \<and>
   (shell_rc_op (Some C) = NoWrite \<longleftrightarrow> str_in ''GPG_TTY'' C) \<and>
   setup_ssh_config (Some ''Host GITHUB.COM\<newline>'') = Some ''Host GITHUB.COM\<newline>'' \<and>
   setup_gpg_agent_conf p (Some ''PINENTRY-PROGRAM /x\<newline>'') =
     Some (''PINENTRY-PROGRAM /x\<newline>'' @ ''\<newline>pinentry-program '' @ p @ ''\<newline>'') \<and>
   setup_shell_rc (Some ''export gpg_tty=$(tty)\<newline>'') =
     Some (''export gpg_tty=$(tty)\<newline>'' @
           ''\<newline># GPG commit signing\<newline>export GPG_TTY=$(tty)\<newline>'')"
proof -
  have a: "str_in ''github.com'' (lower ''Host GITHUB.COM\<newline>'')"
    by code_simp
  have b: "\<not> str_in ''pinentry-program'' ''PINENTRY-PROGRAM /x\<newline>''"
    by code_simp
  have c: "\<not> str_in ''GPG_TTY'' ''export gpg_tty=$(tty)\<newline>''"
    by code_simp
  show ?thesis
    using ssh_config_present [OF a] gpg_agent_conf_absent [OF b, of p] shell_rc_absent [OF c]
    by (simp add: ssh_config_op_def gpg_agent_conf_op_def shell_rc_op_def pinentry_line_def)
qed

section \<open>Key identifier extraction\<close>

text \<open>
  C6. Take a tool output with a line that, stripped, starts with \<^verbatim>\<open>sec\<close> and holds a slash
  directly followed by a run of at least eight characters of \<^verbatim>\<open>A-F0-9\<close> (the run ends at
  the end of the line or at a character outside the class); let no earlier slash of that
  line start such a run, and let no earlier \<^verbatim>\<open>sec\<close> line of the output match. Then both
  extraction sites return exactly that run. The output
  \<^verbatim>\<open>sec   ed25519/2BA6DADD4FB05F14 2025-02-06 ...\<close> gives \<^verbatim>\<open>2BA6DADD4FB05F14\<close>.
\<close>

theorem first_key_run_returned:
  assumes "split_newline output = before @ l # after"
    and "\<forall>b\<in>set before. startswith (strip b) ''sec'' \<longrightarrow> re_search (strip b) = None"
    and "startswith (strip l) ''sec''"
    and "strip l = pre @ CHR ''/'' # run @ rest"
    and "re_search pre = None"
    and "\<forall>c\<in>set run. hexchar c"
    and "8 \<le> length run"
    and "rest = [] \<or> \<not> hexchar (hd rest)"
  shows "existing_key_id output = Some run \<and> fresh_key_id output = Some run"
proof -
  have run: "takeWhile hexchar (run @ rest) = run"
    using assms(6,8) by (rule takeWhile_hex_run)
  have "re_search (strip l) = re_search (CHR ''/'' # run @ rest)"
    unfolding assms(4) using assms(5) by (rule re_search_after_prefix)
  also have "\<dots> = Some run"
    using run assms(7) by simp
  finally have line: "re_search (strip l) = Some run" .
  have "scan_sec_lines (before @ l # after) = scan_sec_lines (l # after)"
    using assms(2) by (rule scan_sec_lines_skip)
  also have "\<dots> = Some run"
    using assms(3) line by (simp add: Let_def)
  finally have parsed: "parse_key_id output = Some run"
    by (simp add: parse_key_id_def assms(1))
  have "l \<in> set (split_newline output)"
    by (simp add: assms(1))
  from sec_line_in_output [OF this assms(3)] parsed show ?thesis
    by (simp add: existing_key_id_def fresh_key_id_def)
qed

theorem first_key_run_returned_witness:
  "existing_key_id ''sec   ed25519/2BA6DADD4FB05F14 2025-02-06 ...'' = Some ''2BA6DADD4FB05F14'' \<and>
   fresh_key_id ''sec   ed25519/2BA6DADD4FB05F14 2025-02-06 ...'' = Some ''2BA6DADD4FB05F14'' \<and>
   existing_key_id
     (''[keyboxd]\<newline>---------\<newline>sec   rsa4096/ABCDEF1234567890 2024-01-15 [SC]\<newline>'' @
      ''uid   Test User\<newline>ssb   rsa4096/1234567890ABCDEF 2024-01-15 [E]'') =
     Some ''ABCDEF1234567890'' \<and>
   fresh_key_id
     (''[keyboxd]\<newline>---------\<newline>sec   rsa4096/ABCDEF1234567890 2024-01-15 [SC]\<newline>'' @
      ''uid   Test User\<newline>ssb   rsa4096/1234567890ABCDEF 2024-01-15 [E]'') =
     Some ''ABCDEF1234567890''"
proof -
  have one_line: "existing_key_id ''sec   ed25519/2BA6DADD4FB05F14 2025-02-06 ...'' =
        Some ''2BA6DADD4FB05F14'' \<and>
      fresh_key_id ''sec   ed25519/2BA6DADD4FB05F14 2025-02-06 ...'' = Some ''2BA6DADD4FB05F14''"
  proof -
    have 1: "split_newline ''sec   ed25519/2BA6DADD4FB05F14 2025-02-06 ...'' =
             [] @ ''sec   ed25519/2BA6DADD4FB05F14 2025-02-06 ...'' # []"
      by code_simp
    have 2: "\<forall>b\<in>set ([] :: string list).
               startswith (strip b) ''sec'' \<longrightarrow> re_search (strip b) = None"
      by simp
    have 3: "startswith (strip ''sec   ed25519/2BA6DADD4FB05F14 2025-02-06 ...'') ''sec''"
      by code_simp
    have 4: "strip ''sec   ed25519/2BA6DADD4FB05F14 2025-02-06 ...'' =
             ''sec   ed25519'' @ CHR ''/'' # ''2BA6DADD4FB05F14'' @ '' 2025-02-06 ...''"
      by code_simp
    have 5: "re_search ''sec   ed25519'' = None"
      by code_simp
    have 6: "\<forall>c\<in>set ''2BA6DADD4FB05F14''. hexchar c"
      by code_simp
    have 7: "8 \<le> length ''2BA6DADD4FB05F14''"
      by simp
    have 8: "'' 2025-02-06 ...'' = [] \<or> \<not> hexchar (hd '' 2025-02-06 ...'')"
      by code_simp
    show ?thesis
      by (rule first_key_run_returned [OF 1 2 3 4 5 6 7 8])
  qed
  have listing: "existing_key_id
       (''[keyboxd]\<newline>---------\<newline>sec   rsa4096/ABCDEF1234567890 2024-01-15 [SC]\<newline>'' @
        ''uid   Test User\<newline>ssb   rsa4096/1234567890ABCDEF 2024-01-15 [E]'') =
       Some ''ABCDEF1234567890'' \<and>
     fresh_key_id
       (''[keyboxd]\<newline>---------\<newline>sec   rsa4096/ABCDEF1234567890 2024-01-15 [SC]\<newline>'' @
        ''uid   Test User\<newline>ssb   rsa4096/1234567890ABCDEF 2024-01-15 [E]'') =
       Some ''ABCDEF1234567890''"
  proof -
    have 1: "split_newline
               (''[keyboxd]\<newline>---------\<newline>sec   rsa4096/ABCDEF1234567890 2024-01-15 [SC]\<newline>'' @
                ''uid   Test User\<newline>ssb   rsa4096/1234567890ABCDEF 2024-01-15 [E]'') =
             [''[keyboxd]'', ''---------''] @
             ''sec   rsa4096/ABCDEF1234567890 2024-01-15 [SC]'' #
             [''uid   Test User'', ''ssb   rsa4096/1234567890ABCDEF 2024-01-15 [E]'']"
      by code_simp
    have 2: "\<forall>b\<in>set [''[keyboxd]'', ''---------''].
               startswith (strip b) ''sec'' \<longrightarrow> re_search (strip b) = None"
      by code_simp
    have 3: "startswith (strip ''sec   rsa4096/ABCDEF1234567890 2024-01-15 [SC]'') ''sec''"
      by code_simp
    have 4: "strip ''sec   rsa4096/ABCDEF1234567890 2024-01-15 [SC]'' =
             ''sec   rsa4096'' @ CHR ''/'' # ''ABCDEF1234567890'' @ '' 2024-01-15 [SC]''"
      by code_simp
    have 5: "re_search ''sec   rsa4096'' = None"
      by code_simp
    have 6: "\<forall>c\<in>set ''ABCDEF1234567890''. hexchar c"
      by code_simp
    have 7: "8 \<le> length ''ABCDEF1234567890''"
      by simp
    have 8: "'' 2024-01-15 [SC]'' = [] \<or> \<not> hexchar (hd '' 2024-01-15 [SC]'')"
      by code_simp
    show ?thesis
      by (rule first_key_run_returned [OF 1 2 3 4 5 6 7 8])
  qed
  from one_line listing show ?thesis
    by (simp only: simp_thms)
qed

text \<open>
  C2. A token with a character outside \<^verbatim>\<open>A-F0-9\<close> in it. Every value the extractor returns
  consists of at least eight characters of the class, so no returned value contains the
  offending character. For a \<^verbatim>\<open>sec\<close> line whose first candidate slash is followed by a
  run of class characters and then a character outside the class: if the run has eight
  characters or more the extractor returns the run up to that character; if it has fewer,
  the search goes on in the rest of the line and then in the later lines. The functions
  are total: there is no input on which they fail.
\<close>

theorem key_id_stops_at_non_hex:
  "(fresh_key_id output = Some k \<longrightarrow> (\<forall>c\<in>set k. hexchar c) \<and> 8 \<le> length k) \<and>
   (existing_key_id output = Some k \<longrightarrow> (\<forall>c\<in>set k. hexchar c) \<and> 8 \<le> length k) \<and>
   (startswith (strip l) ''sec'' \<and> strip l = pre @ CHR ''/'' # run @ x # rest \<and>
    re_search pre = None \<and> (\<forall>c\<in>set run. hexchar c) \<and> \<not> hexchar x \<longrightarrow>
      scan_sec_lines (l # ls) =
        (if 8 \<le> length run then Some run
         else (case re_search (x # rest) of
                 Some later \<Rightarrow> Some later
               | None \<Rightarrow> scan_sec_lines ls)))"
proof -
  have fresh: "(\<forall>c\<in>set k. hexchar c) \<and> 8 \<le> length k" if "fresh_key_id output = Some k"
  proof -
    from that have "scan_sec_lines (split_newline output) = Some k"
      by (simp add: fresh_key_id_def parse_key_id_def split: if_splits)
    then show ?thesis
      by (rule scan_sec_lines_hex)
  qed
  have existing: "(\<forall>c\<in>set k. hexchar c) \<and> 8 \<le> length k" if "existing_key_id output = Some k"
  proof -
    from that have "scan_sec_lines (split_newline output) = Some k"
      by (simp add: existing_key_id_def parse_key_id_def split: if_splits)
    then show ?thesis
      by (rule scan_sec_lines_hex)
  qed
  have line: "scan_sec_lines (l # ls) =
        (if 8 \<le> length run then Some run
         else (case re_search (x # rest) of
                 Some later \<Rightarrow> Some later
               | None \<Rightarrow> scan_sec_lines ls))"
    if sec: "startswith (strip l) ''sec''"
      and shape: "strip l = pre @ CHR ''/'' # run @ x # rest"
      and pre: "re_search pre = None"
      and hex: "\<forall>c\<in>set run. hexchar c"
      and stop: "\<not> hexchar x"
  proof -
    have run: "takeWhile hexchar (run @ x # rest) = run"
      using hex stop by (simp add: takeWhile_tail)
    have "re_search (strip l) = re_search (CHR ''/'' # run @ x # rest)"
      unfolding shape using pre by (rule re_search_after_prefix)
    also have "\<dots> = (if 8 \<le> length run then Some run else re_search (run @ x # rest))"
      using run by simp
    also have "\<dots> = (if 8 \<le> length run then Some run else re_search (x # rest))"
      using hex by (simp add: re_search_skip_hex)
    finally show ?thesis
      using sec by (simp add: Let_def)
  qed
  from fresh existing line show ?thesis
    by blast
qed

theorem key_id_stops_at_non_hex_witness:
  "fresh_key_id ''sec   ed25519/2BA6DADD4FBW5F14 2025-02-06 [SC]'' = Some ''2BA6DADD4FB'' \<and>
   existing_key_id ''sec   ed25519/2BA6DADD4FBW5F14 2025-02-06 [SC]'' = Some ''2BA6DADD4FB'' \<and>
   list_all hexchar ''2BA6DADD4FB'' \<and> 8 \<le> length ''2BA6DADD4FB'' \<and>
   scan_sec_lines [''sec   ed25519/2BA6DADD4FBW5F14 2025-02-06 [SC]''] = Some ''2BA6DADD4FB'' \<and>
   scan_sec_lines [''sec   rsa4096/ABCDxF1234567890 2024-01-15 [SC]''] = None"
proof -
  have f: "fresh_key_id ''sec   ed25519/2BA6DADD4FBW5F14 2025-02-06 [SC]'' = Some ''2BA6DADD4FB''"
    by code_simp
  have e: "existing_key_id ''sec   ed25519/2BA6DADD4FBW5F14 2025-02-06 [SC]'' = Some ''2BA6DADD4FB''"
    by code_simp
  have long: "startswith (strip ''sec   ed25519/2BA6DADD4FBW5F14 2025-02-06 [SC]'') ''sec'' \<and>
      strip ''sec   ed25519/2BA6DADD4FBW5F14 2025-02-06 [SC]'' =
        ''sec   ed25519'' @ CHR ''/'' # ''2BA6DADD4FB'' @ CHR ''W'' # ''5F14 2025-02-06 [SC]'' \<and>
      re_search ''sec   ed25519'' = None \<and> (\<forall>c\<in>set ''2BA6DADD4FB''. hexchar c) \<and>
      \<not> hexchar CHR ''W''"
    by code_simp
  have short: "startswith (strip ''sec   rsa4096/ABCDxF1234567890 2024-01-15 [SC]'') ''sec'' \<and>
      strip ''sec   rsa4096/ABCDxF1234567890 2024-01-15 [SC]'' =
        ''sec   rsa4096'' @ CHR ''/'' # ''ABCD'' @ CHR ''x'' # ''F1234567890 2024-01-15 [SC]'' \<and>
      re_search ''sec   rsa4096'' = None \<and> (\<forall>c\<in>set ''ABCD''. hexchar c) \<and>
      \<not> hexchar CHR ''x''"
    by code_simp
  have later: "re_search (CHR ''x'' # ''F1234567890 2024-01-15 [SC]'') = None"
    by code_simp
  note at_long = key_id_stops_at_non_hex [of "''sec   ed25519/2BA6DADD4FBW5F14 2025-02-06 [SC]''"
        "''2BA6DADD4FB''" "''sec   ed25519/2BA6DADD4FBW5F14 2025-02-06 [SC]''"
        "''sec   ed25519''" "''2BA6DADD4FB''" "CHR ''W''" "''5F14 2025-02-06 [SC]''" "[]"]
  note at_short = key_id_stops_at_non_hex [of "''sec   ed25519/2BA6DADD4FBW5F14 2025-02-06 [SC]''"
        "''2BA6DADD4FB''" "''sec   rsa4096/ABCDxF1234567890 2024-01-15 [SC]''"
        "''sec   rsa4096''" "''ABCD''" "CHR ''x''" "''F1234567890 2024-01-15 [SC]''" "[]"]
  have "(\<forall>c\<in>set ''2BA6DADD4FB''. hexchar c) \<and> 8 \<le> length ''2BA6DADD4FB''"
    by (rule at_long [THEN conjunct1, THEN mp, OF f])
  then have hex: "list_all hexchar ''2BA6DADD4FB'' \<and> 8 \<le> length ''2BA6DADD4FB''"
    unfolding list_all_iff .
  have "scan_sec_lines [''sec   ed25519/2BA6DADD4FBW5F14 2025-02-06 [SC]''] =
        (if 8 \<le> length ''2BA6DADD4FB'' then Some ''2BA6DADD4FB''
         else (case re_search (CHR ''W'' # ''5F14 2025-02-06 [SC]'') of
                 Some later \<Rightarrow> Some later
               | None \<Rightarrow> scan_sec_lines []))"
    by (rule at_long [THEN conjunct2, THEN conjunct2, THEN mp, OF long])
  then have truncated: "scan_sec_lines [''sec   ed25519/2BA6DADD4FBW5F14 2025-02-06 [SC]''] =
        Some ''2BA6DADD4FB''"
    by simp
  have "scan_sec_lines [''sec   rsa4096/ABCDxF1234567890 2024-01-15 [SC]''] =
        (if 8 \<le> length ''ABCD'' then Some ''ABCD''
         else (case re_search (CHR ''x'' # ''F1234567890 2024-01-15 [SC]'') of
                 Some later \<Rightarrow> Some later
               | None \<Rightarrow> scan_sec_lines []))"
    by (rule at_short [THEN conjunct2, THEN conjunct2, THEN mp, OF short])
  then have none: "scan_sec_lines [''sec   rsa4096/ABCDxF1234567890 2024-01-15 [SC]''] = None"
    by (simp add: later)
  from f e hex truncated none show ?thesis
    by (intro conjI) (rule conjunct1, assumption | rule conjunct2, assumption | assumption)+
qed

text \<open>
  The sample line of the test suite, token \<^verbatim>\<open>2BA6DADD4FBW5F14\<close>: the line is matched and
  the eleven characters before the \<^verbatim>\<open>W\<close> are returned.
\<close>

theorem truncated_key_id_counterexample:
  "startswith (strip ''sec   ed25519/2BA6DADD4FBW5F14 2025-02-06 [SC] [expires: 2028-02-06]'') ''sec'' \<and>
   re_search (strip ''sec   ed25519/2BA6DADD4FBW5F14 2025-02-06 [SC] [expires: 2028-02-06]'') =
     Some ''2BA6DADD4FB'' \<and>
   fresh_key_id ''sec   ed25519/2BA6DADD4FBW5F14 2025-02-06 [SC] [expires: 2028-02-06]'' =
     Some ''2BA6DADD4FB''"
  by code_simp

text \<open>
  C7. On empty output both extraction sites return \<open>None\<close>, and so they do on every output
  none of whose lines, once stripped, starts with \<^verbatim>\<open>sec\<close>.
\<close>

theorem no_sec_line_absent:
  "existing_key_id [] = None \<and> fresh_key_id [] = None \<and>
   ((\<forall>l\<in>set (split_newline output). \<not> startswith (strip l) ''sec'') \<longrightarrow>
      existing_key_id output = None \<and> fresh_key_id output = None)"
  by (simp add: existing_key_id_def fresh_key_id_def parse_key_id_def scan_sec_lines_none)

theorem no_sec_line_absent_witness:
  "existing_key_id ''uid [ultimate] Test <t@t.com>\<newline>ssb   rsa4096/1234567890ABCDEF 2024-01-15 [E]'' = None \<and>
   fresh_key_id ''uid [ultimate] Test <t@t.com>\<newline>ssb   rsa4096/1234567890ABCDEF 2024-01-15 [E]'' = None"
proof -
  have h: "\<forall>l\<in>set (split_newline ''uid [ultimate] Test <t@t.com>\<newline>ssb   rsa4096/1234567890ABCDEF 2024-01-15 [E]'').
      \<not> startswith (strip l) ''sec''"
    by code_simp
  with no_sec_line_absent [of "''uid [ultimate] Test <t@t.com>\<newline>ssb   rsa4096/1234567890ABCDEF 2024-01-15 [E]''"]
  show ?thesis by blast
qed

section \<open>Shell helpers\<close>

text \<open>
  C8. \<^verbatim>\<open>sh\<close> turns an exception of \<^verbatim>\<open>subprocess.run\<close> into the empty string, but
  \<^verbatim>\<open>sh_ok\<close> calls \<^verbatim>\<open>subprocess.run\<close> outside any \<^verbatim>\<open>try\<close>: when launching the command
  raises (here: the command text holds a NUL character), \<^verbatim>\<open>cmd_exists\<close> raises the same
  exception instead of returning a boolean.
\<close>

theorem cmd_exists_propagates_launch_exception:
  "cmd_exists (\<lambda>cmd. if CHR 0x00 \<in> set cmd then Inl (Exception ''embedded null byte'')
                      else Inr \<lparr>returncode = 1, stdout = []\<rparr>) [CHR 0x00] =
     Inl (Exception ''embedded null byte'') \<and>
   sh (\<lambda>cmd. if CHR 0x00 \<in> set cmd then Inl (Exception ''embedded null byte'')
              else Inr \<lparr>returncode = 1, stdout = []\<rparr>) (''which '' @ [CHR 0x00]) = Inr []"
  by (simp add: cmd_exists_def sh_ok_def sh_def)

section \<open>The entry point\<close>

text \<open>
  What \<^verbatim>\<open>main\<close> does when every message prints: it ends with \<^verbatim>\<open>SystemExit(0)\<close> when the
  user declines at the welcome prompt, with \<^verbatim>\<open>SystemExit(1)\<close> when the platform is not
  \<^verbatim>\<open>Darwin\<close> or Git is not found, with \<^verbatim>\<open>SystemExit(130)\<close> when a \<^verbatim>\<open>KeyboardInterrupt\<close>
  reaches it, and it raises any other exception again after printing its text.
\<close>

lemma main_when_messages_print:
  assumes "\<And>m. console_print env m = Inr ()"
  shows "(confirm_ready env = Inr False \<longrightarrow> main env = ([], Inl (SystemExit 0))) \<and>
   (confirm_ready env = Inr True \<and> platform_system env \<noteq> ''Darwin'' \<longrightarrow>
      main env = ([], Inl (SystemExit 1))) \<and>
   (confirm_ready env = Inr True \<and> platform_system env = ''Darwin'' \<and>
    cmd_exists (subprocess_run env) ''git'' = Inr False \<longrightarrow>
      main env = ([], Inl (SystemExit 1))) \<and>
   (main_body env = Inl KeyboardInterrupt \<longrightarrow> main env = ([Cancelled], Inl (SystemExit 130))) \<and>
   (main_body env = Inl (Exception e) \<longrightarrow>
      main env = ([SomethingBroke e, RerunHint], Inl (Exception e)))"
  using assms
  by (simp add: main_def main_body_def welcome_phase_def preflight_def and_then_def)

text \<open>
  C9. The handler for other exceptions puts the text of the exception into the markup
  of the message it prints. When that text makes \<^verbatim>\<open>console.print\<close> raise (a closing tag
  such as \<^verbatim>\<open>[/]\<close> in it does), nothing is printed and the exception of \<^verbatim>\<open>console.print\<close>
  leaves \<^verbatim>\<open>main\<close>: the error is neither reported nor raised again. Here a later phase
  raises an error with the text \<^verbatim>\<open>bad value [/]\<close>.
\<close>

theorem main_handler_breaks_on_markup:
  "main \<lparr>subprocess_run = (\<lambda>cmd. Inr \<lparr>returncode = 0, stdout = []\<rparr>),
         console_print =
           (\<lambda>m. case m of
                   SomethingBroke e \<Rightarrow>
                     if str_in ''[/]'' e then Inl (Exception ''MarkupError'') else Inr ()
                 | other \<Rightarrow> Inr ()),
         confirm_ready = Inr True, platform_system = ''Darwin'',
         preflight_rest = Inr True,
         later_phases = (\<lambda>gpg. Inl (Exception ''bad value [/]''))\<rparr> =
     ([], Inl (Exception ''MarkupError''))"
proof -
  have "str_in ''[/]'' ''bad value [/]''"
    by code_simp
  then show ?thesis
    by (simp add: main_def main_body_def welcome_phase_def preflight_def and_then_def
          cmd_exists_def sh_ok_def)
qed

end
